theory Spec2Isabelle
  imports Complex_Main
begin

section \<open>The habit-tracking CSV validator\<close>

text \<open>
  A shallow embedding of \<^verbatim>\<open>scripts/validate_and_compute_stability.py\<close>.

  Strings are byte lists holding UTF-8 text. The program's input is what
  \<^verbatim>\<open>csv.DictReader\<close> hands to it: the field names (or nothing, for an
  empty file) and one dictionary per data row. Its results are the issue list, the
  row count and, when the file is rewritten, the records given to the CSV writer.
\<close>

subsection \<open>Builtins of the host language\<close>

text \<open>
  The program computes with Python floats and prints them. The float type and the
  builtins used on it are parameters of the model, as is \<^verbatim>\<open>repr\<close> on
  strings: every theorem below holds whatever these functions are, so in
  particular for CPython's binary64 arithmetic.

  \<^item> \<open>float_of_str s\<close> is \<^verbatim>\<open>float(s)\<close>, \<open>None\<close> when it raises ValueError;
  \<^item> \<open>float_lit t\<close> is the value of the float literal written \<open>t\<close> in the source;
  \<^item> \<open>float_round1 x\<close> is \<^verbatim>\<open>round(x, 1)\<close>;
  \<^item> \<open>float_is_integer x\<close> is \<^verbatim>\<open>float(x).is_integer()\<close>;
  \<^item> \<open>float_str x\<close> is \<^verbatim>\<open>f"{x}"\<close> and \<open>float_fmt1 x\<close> is \<^verbatim>\<open>f"{x:.1f}"\<close>;
  \<^item> \<open>str_repr s\<close> is \<^verbatim>\<open>repr(s)\<close> of a string.
\<close>

record 'f host =
  float_of_str :: "string \<Rightarrow> 'f option"
  float_lit :: "string \<Rightarrow> 'f"
  float_add :: "'f \<Rightarrow> 'f \<Rightarrow> 'f"
  float_sub :: "'f \<Rightarrow> 'f \<Rightarrow> 'f"
  float_div :: "'f \<Rightarrow> 'f \<Rightarrow> 'f"
  float_abs :: "'f \<Rightarrow> 'f"
  float_lt :: "'f \<Rightarrow> 'f \<Rightarrow> bool"
  float_gt :: "'f \<Rightarrow> 'f \<Rightarrow> bool"
  float_round1 :: "'f \<Rightarrow> 'f"
  float_is_integer :: "'f \<Rightarrow> bool"
  float_str :: "'f \<Rightarrow> string"
  float_fmt1 :: "'f \<Rightarrow> string"
  str_repr :: "string \<Rightarrow> string"

text \<open>\<^verbatim>\<open>f"{xs}"\<close> for a list of strings: the items' \<^verbatim>\<open>repr\<close>, comma separated, in brackets.\<close>

fun join :: "string \<Rightarrow> string list \<Rightarrow> string" where
  "join sep [] = []"
| "join sep [x] = x"
| "join sep (x # y # ys) = x @ sep @ join sep (y # ys)"

definition list_repr :: "'f host \<Rightarrow> string list \<Rightarrow> string" where
  "list_repr h xs = ''['' @ join '', '' (map (str_repr h) xs) @ '']''"

subsection \<open>\<^verbatim>\<open>str.strip\<close>\<close>

text \<open>
  \<^verbatim>\<open>str.strip()\<close> removes the characters for which \<^verbatim>\<open>str.isspace\<close> holds from
  both ends. They are listed here in UTF-8: the ASCII ones (U+0009 to U+000D, U+001C to
  U+0020), then U+0085, U+00A0, U+1680, U+2000 to U+200A, U+2028, U+2029, U+202F, U+205F
  and U+3000.
\<close>

definition WHITESPACE :: "string list" where
  "WHITESPACE =
     [[CHR 0x09], [CHR 0x0A], [CHR 0x0B], [CHR 0x0C], [CHR 0x0D],
      [CHR 0x1C], [CHR 0x1D], [CHR 0x1E], [CHR 0x1F], [CHR 0x20],
      [CHR 0xC2, CHR 0x85], [CHR 0xC2, CHR 0xA0], [CHR 0xE1, CHR 0x9A, CHR 0x80],
      [CHR 0xE2, CHR 0x80, CHR 0x80], [CHR 0xE2, CHR 0x80, CHR 0x81],
      [CHR 0xE2, CHR 0x80, CHR 0x82], [CHR 0xE2, CHR 0x80, CHR 0x83],
      [CHR 0xE2, CHR 0x80, CHR 0x84], [CHR 0xE2, CHR 0x80, CHR 0x85],
      [CHR 0xE2, CHR 0x80, CHR 0x86], [CHR 0xE2, CHR 0x80, CHR 0x87],
      [CHR 0xE2, CHR 0x80, CHR 0x88], [CHR 0xE2, CHR 0x80, CHR 0x89],
      [CHR 0xE2, CHR 0x80, CHR 0x8A], [CHR 0xE2, CHR 0x80, CHR 0xA8],
      [CHR 0xE2, CHR 0x80, CHR 0xA9], [CHR 0xE2, CHR 0x80, CHR 0xAF],
      [CHR 0xE2, CHR 0x81, CHR 0x9F], [CHR 0xE3, CHR 0x80, CHR 0x80]]"

text \<open>The length of the first of the sequences \<open>ws\<close> that \<open>s\<close> starts with, 0 if none.\<close>

fun lead_len :: "string list \<Rightarrow> string \<Rightarrow> nat" where
  "lead_len [] s = 0"
| "lead_len (w # ws) s =
     (if w \<noteq> [] \<and> take (length w) s = w then length w else lead_len ws s)"

fun lstrip_by :: "string list \<Rightarrow> string \<Rightarrow> string" where
  "lstrip_by ws [] = []"
| "lstrip_by ws (c # cs) =
     (let n = lead_len ws (c # cs)
      in if n = 0 then c # cs else lstrip_by ws (drop (n - 1) cs))"

definition lstrip :: "string \<Rightarrow> string" where
  "lstrip s = lstrip_by WHITESPACE s"

definition rstrip :: "string \<Rightarrow> string" where
  "rstrip s = rev (lstrip_by (map rev WHITESPACE) (rev s))"

definition strip :: "string \<Rightarrow> string" where
  "strip s = rstrip (lstrip s)"

subsection \<open>The schema\<close>

definition REQUIRED_COLUMNS :: "string list" where
  "REQUIRED_COLUMNS =
     [''date'', ''clarity'', ''calm'', ''routine'', ''stability'', ''sleep_hours'',
      ''sleep_quality'', ''exercise_minutes'', ''caffeine_units'', ''social_minutes'',
      ''stressors'', ''notes'']"

text \<open>The dictionary \<^verbatim>\<open>RANGES\<close>, in insertion order, which is the order of its keys.\<close>

definition RANGES :: "'f host \<Rightarrow> (string \<times> 'f \<times> 'f) list" where
  "RANGES h =
     [(''clarity'', float_lit h ''0.0'', float_lit h ''10.0''),
      (''calm'', float_lit h ''0.0'', float_lit h ''10.0''),
      (''routine'', float_lit h ''0.0'', float_lit h ''10.0''),
      (''stability'', float_lit h ''0.0'', float_lit h ''10.0''),
      (''sleep_hours'', float_lit h ''0.0'', float_lit h ''16.0''),
      (''sleep_quality'', float_lit h ''1.0'', float_lit h ''5.0''),
      (''exercise_minutes'', float_lit h ''0.0'', float_lit h ''300.0''),
      (''caffeine_units'', float_lit h ''0.0'', float_lit h ''20.0''),
      (''social_minutes'', float_lit h ''0.0'', float_lit h ''1440.0''),
      (''stressors'', float_lit h ''0.0'', float_lit h ''3.0'')]"

definition INT_FIELDS :: "string set" where
  "INT_FIELDS =
     {''sleep_quality'', ''exercise_minutes'', ''caffeine_units'', ''social_minutes'',
      ''stressors''}"

subsection \<open>Issues and rows\<close>

record Issue =
  row_number :: int
  column :: string
  message :: string

abbreviation Issue :: "int \<Rightarrow> string \<Rightarrow> string \<Rightarrow> Issue" where
  "Issue n c m \<equiv> \<lparr>row_number = n, column = c, message = m\<rparr>"

text \<open>
  A row of \<^verbatim>\<open>csv.DictReader\<close>: under each field name a string, or \<^verbatim>\<open>None\<close>
  when the line was shorter than the header; the surplus fields of a longer line are a
  list under the key \<^verbatim>\<open>None\<close>.
\<close>

datatype cell = Str string | NoneVal

record row =
  cols :: "string \<rightharpoonup> cell"
  rest :: "string list option"

text \<open>\<^verbatim>\<open>r.get(k, d)\<close>, and \<^verbatim>\<open>f"{v}"\<close> for a value of a row.\<close>

definition row_get :: "row \<Rightarrow> string \<Rightarrow> cell \<Rightarrow> cell" where
  "row_get r k d = (case cols r k of None \<Rightarrow> d | Some v \<Rightarrow> v)"

definition cell_str :: "cell \<Rightarrow> string" where
  "cell_str v = (case v of Str s \<Rightarrow> s | NoneVal \<Rightarrow> ''None'')"

subsection \<open>The helper functions\<close>

definition is_blank :: "cell \<Rightarrow> bool" where
  "is_blank v = (case v of NoneVal \<Rightarrow> True | Str s \<Rightarrow> strip s = [])"

definition to_float :: "'f host \<Rightarrow> cell \<Rightarrow> 'f option" where
  "to_float h v =
     (if is_blank v then None
      else (case v of Str s \<Rightarrow> float_of_str h s | NoneVal \<Rightarrow> None))"

definition validate_columns :: "'f host \<Rightarrow> string list \<Rightarrow> string list" where
  "validate_columns h header =
     (let missing = filter (\<lambda>c. c \<notin> set header) REQUIRED_COLUMNS;
          extras = filter (\<lambda>c. c \<notin> set REQUIRED_COLUMNS) header
      in (if missing \<noteq> [] then [''Missing columns: '' @ list_repr h missing] else [])
       @ (if extras \<noteq> [] then [''Unexpected extra columns: '' @ list_repr h extras] else []))"

definition compute_stability :: "'f host \<Rightarrow> 'f \<Rightarrow> 'f \<Rightarrow> 'f \<Rightarrow> 'f" where
  "compute_stability h clarity calm routine =
     float_round1 h
       (float_div h (float_add h (float_add h clarity calm) routine) (float_lit h ''3.0''))"

subsection \<open>One data row\<close>

text \<open>The cleaned row: every string value stripped, everything else as it is.\<close>

definition clean_cell :: "cell \<Rightarrow> cell" where
  "clean_cell v = (case v of Str s \<Rightarrow> Str (strip s) | NoneVal \<Rightarrow> NoneVal)"

definition clean_row :: "row \<Rightarrow> row" where
  "clean_row r = r\<lparr>cols := map_option clean_cell \<circ> cols r\<rparr>"

text \<open>
  The date checks, on the cleaned row: the issues appended and the set of seen dates
  afterwards.
\<close>

definition check_date :: "cell set \<Rightarrow> int \<Rightarrow> row \<Rightarrow> Issue list \<times> cell set" where
  "check_date seen_dates idx row_clean =
     (let date = row_get row_clean ''date'' (Str '''')
      in if is_blank date then ([Issue idx ''date'' ''Missing date''], seen_dates)
         else ((if date \<in> seen_dates
                then [Issue idx ''date'' (''Duplicate date: '' @ cell_str date)] else []),
               insert date seen_dates))"

text \<open>
  The body of the loop over \<^verbatim>\<open>RANGES\<close> for one column: the issues appended and
  the entry of \<^verbatim>\<open>numeric_values\<close>. The dash of the range message is U+2013.
\<close>

definition en_dash :: string where
  "en_dash = [CHR 0xE2, CHR 0x80, CHR 0x93]"

definition check_column ::
  "'f host \<Rightarrow> int \<Rightarrow> row \<Rightarrow> string \<Rightarrow> 'f \<Rightarrow> 'f \<Rightarrow> Issue list \<times> 'f option" where
  "check_column h idx row_clean col lo hi =
     (let val = row_get row_clean col (Str '''')
      in if is_blank val then ([], None)
         else (case to_float h val of
                 None \<Rightarrow> ([Issue idx col (''Not a number: '' @ [CHR 0x27] @ cell_str val @ [CHR 0x27])], None)
               | Some fval \<Rightarrow>
                   ((if float_lt h fval lo \<or> float_gt h fval hi
                     then [Issue idx col (''Out of range '' @ float_str h lo @ en_dash
                                            @ float_str h hi @ '': '' @ float_str h fval)]
                     else [])
                    @ (if col \<in> INT_FIELDS \<and> \<not> float_is_integer h fval
                       then [Issue idx col (''Expected integer, got: '' @ float_str h fval)]
                       else []),
                    Some fval)))"

text \<open>The loop over the columns of a range table, and \<^verbatim>\<open>numeric_values.get\<close>.\<close>

fun numeric_loop ::
  "'f host \<Rightarrow> int \<Rightarrow> row \<Rightarrow> (string \<times> 'f \<times> 'f) list
     \<Rightarrow> Issue list \<times> (string \<rightharpoonup> 'f option) \<Rightarrow> Issue list \<times> (string \<rightharpoonup> 'f option)" where
  "numeric_loop h idx row_clean [] acc = acc"
| "numeric_loop h idx row_clean ((col, lo, hi) # cs) (issues, numeric_values) =
     (let (new, v) = check_column h idx row_clean col lo hi
      in numeric_loop h idx row_clean cs (issues @ new, numeric_values(col \<mapsto> v)))"

definition numeric_checks ::
  "'f host \<Rightarrow> int \<Rightarrow> row \<Rightarrow> Issue list \<times> (string \<rightharpoonup> 'f option)" where
  "numeric_checks h idx row_clean = numeric_loop h idx row_clean (RANGES h) ([], Map.empty)"

definition nv_get :: "(string \<rightharpoonup> 'f option) \<Rightarrow> string \<Rightarrow> 'f option" where
  "nv_get numeric_values k = (case numeric_values k of None \<Rightarrow> None | Some v \<Rightarrow> v)"

text \<open>The stability check or fill: the issues appended and the cleaned row afterwards.\<close>

definition mismatch_message :: "'f host \<Rightarrow> 'f \<Rightarrow> 'f \<Rightarrow> string" where
  "mismatch_message h existing computed =
     ''Does not match (clarity+calm+routine)/3. '' @ ''Existing='' @ float_fmt1 h existing
       @ '', Computed='' @ float_fmt1 h computed"

definition check_stability ::
  "'f host \<Rightarrow> int \<Rightarrow> (string \<rightharpoonup> 'f option) \<Rightarrow> row \<Rightarrow> Issue list \<times> row" where
  "check_stability h idx numeric_values row_clean =
     (case (nv_get numeric_values ''clarity'', nv_get numeric_values ''calm'',
            nv_get numeric_values ''routine'') of
        (Some clarity, Some calm, Some routine) \<Rightarrow>
          (let computed = compute_stability h clarity calm routine
           in (case nv_get numeric_values ''stability'' of
                 None \<Rightarrow>
                   ([], row_clean\<lparr>cols := (cols row_clean)(''stability'' \<mapsto> Str (float_fmt1 h computed))\<rparr>)
               | Some existing \<Rightarrow>
                   ((if float_gt h (float_abs h (float_sub h existing computed)) (float_lit h ''0.1'')
                     then [Issue idx ''stability'' (mismatch_message h existing computed)]
                     else []),
                    row_clean)))
      | _ \<Rightarrow> ([], row_clean))"

subsection \<open>The pass over the file\<close>

record loop_state =
  issues :: "Issue list"
  seen_dates :: "cell set"
  rows_out :: "row list"
  valid_rows :: int

definition process_row :: "'f host \<Rightarrow> loop_state \<Rightarrow> int \<Rightarrow> row \<Rightarrow> loop_state" where
  "process_row h s idx r =
     (let row_clean = clean_row r;
          (date_issues, seen) = check_date (seen_dates s) idx row_clean;
          (numeric_issues, numeric_values) = numeric_checks h idx row_clean;
          (stability_issues, row_final) = check_stability h idx numeric_values row_clean
      in \<lparr>issues = issues s @ date_issues @ numeric_issues @ stability_issues,
          seen_dates = seen,
          rows_out = rows_out s @ [row_final],
          valid_rows = valid_rows s + 1\<rparr>)"

fun run_rows :: "'f host \<Rightarrow> loop_state \<Rightarrow> int \<Rightarrow> row list \<Rightarrow> loop_state" where
  "run_rows h s idx [] = s"
| "run_rows h s idx (r # rs) = run_rows h (process_row h s idx r) (idx + 1) rs"

text \<open>
  What the CSV writer is given for one cleaned row: the values under the required
  columns, in their order; it writes \<^verbatim>\<open>None\<close> as the empty string.
\<close>

definition written_field :: "cell \<Rightarrow> string" where
  "written_field v = (case v of Str s \<Rightarrow> s | NoneVal \<Rightarrow> '''')"

definition out_row :: "row \<Rightarrow> string list" where
  "out_row r = map (\<lambda>c. written_field (row_get r c (Str ''''))) REQUIRED_COLUMNS"

text \<open>
  The read pass over a file that has a header: the header issues, then the loop over
  the data rows, numbered from line 2.
\<close>

definition read_pass :: "'f host \<Rightarrow> string list \<Rightarrow> row list \<Rightarrow> loop_state" where
  "read_pass h header rows =
     run_rows h
       \<lparr>issues = map (Issue 0 ''header'') (validate_columns h header),
        seen_dates = {}, rows_out = [], valid_rows = 0\<rparr>
       2 rows"

text \<open>
  \<open>validate_csv h fieldnames rows write_back\<close> returns the issues, the row count and
  the records written to the path (\<open>None\<close> when the file is not rewritten).
\<close>

definition validate_csv ::
  "'f host \<Rightarrow> string list option \<Rightarrow> row list \<Rightarrow> bool
     \<Rightarrow> Issue list \<times> int \<times> string list list option" where
  "validate_csv h fieldnames rows write_back =
     (case fieldnames of
        None \<Rightarrow> ([Issue 0 [] ''CSV has no header row''], 0, None)
      | Some header \<Rightarrow>
          (let s = read_pass h header rows
           in (issues s, valid_rows s,
               if write_back then Some (REQUIRED_COLUMNS # map out_row (rows_out s))
               else None)))"

subsection \<open>What one data row contributes\<close>

text \<open>
  Two readings of the loop body, used to state the properties: the cleaned row it
  appends to \<^verbatim>\<open>rows_out\<close>, and the issues it appends, given the dates seen so far.
\<close>

definition final_row :: "'f host \<Rightarrow> int \<Rightarrow> row \<Rightarrow> row" where
  "final_row h idx r =
     snd (check_stability h idx (snd (numeric_checks h idx (clean_row r))) (clean_row r))"

definition row_issues :: "'f host \<Rightarrow> cell set \<Rightarrow> int \<Rightarrow> row \<Rightarrow> Issue list" where
  "row_issues h seen idx r =
     fst (check_date seen idx (clean_row r))
       @ fst (numeric_checks h idx (clean_row r))
       @ fst (check_stability h idx (snd (numeric_checks h idx (clean_row r))) (clean_row r))"

subsection \<open>A reference host: exact decimal arithmetic\<close>

text \<open>
  An implementation of the builtins on the rationals, for running the model on examples:
  plain decimal numerals (an optional sign, digits, an optional point), exact
  arithmetic, rounding half to even. On the numbers of the examples below (small
  integers and halves) binary64 arithmetic is exact too and gives the same results.
\<close>

definition digit_of :: "char \<Rightarrow> nat option" where
  "digit_of c =
     (let n = (of_char c :: nat) in if 48 \<le> n \<and> n \<le> 57 then Some (n - 48) else None)"

fun digits_val :: "string \<Rightarrow> nat \<Rightarrow> nat option" where
  "digits_val [] acc = Some acc"
| "digits_val (c # cs) acc =
     (case digit_of c of None \<Rightarrow> None | Some d \<Rightarrow> digits_val cs (10 * acc + d))"

definition unsigned_dec :: "string \<Rightarrow> rat option" where
  "unsigned_dec s =
     (let ip = takeWhile (\<lambda>c. c \<noteq> CHR ''.'') s; fp = drop (length ip + 1) s
      in if ip = [] \<and> fp = [] then None
         else (case (digits_val ip 0, digits_val fp 0) of
                 (Some a, Some b) \<Rightarrow> Some (of_nat a + of_nat b / 10 ^ length fp)
               | _ \<Rightarrow> None))"

definition dec_of_str :: "string \<Rightarrow> rat option" where
  "dec_of_str s =
     (case s of
        [] \<Rightarrow> None
      | c # t \<Rightarrow> if c = CHR ''-'' then map_option uminus (unsigned_dec t)
                 else if c = CHR ''+'' then unsigned_dec t else unsigned_dec s)"

definition round_half_even :: "rat \<Rightarrow> int" where
  "round_half_even q =
     (let f = \<lfloor>q\<rfloor>; d = q - of_int f
      in if d < 1 / 2 then f else if 1 / 2 < d then f + 1 else if even f then f else f + 1)"

definition digit_char :: "nat \<Rightarrow> char" where
  "digit_char d = char_of (48 + d)"

fun nat_str :: "nat \<Rightarrow> string" where
  "nat_str n = (if n < 10 then [digit_char n] else nat_str (n div 10) @ [digit_char (n mod 10)])"

declare nat_str.simps [simp del]

fun frac_digits :: "nat \<Rightarrow> rat \<Rightarrow> string" where
  "frac_digits 0 r = []"
| "frac_digits (Suc n) r =
     (if r = 0 then []
      else (let d = \<lfloor>r * 10\<rfloor> in digit_char (nat d) # frac_digits n (r * 10 - of_int d)))"

definition dec_fmt1 :: "rat \<Rightarrow> string" where
  "dec_fmt1 x =
     (let t = nat \<bar>round_half_even (x * 10)\<bar>
      in (if x < 0 then ''-'' else []) @ nat_str (t div 10) @ ''.'' @ nat_str (t mod 10))"

definition dec_str :: "rat \<Rightarrow> string" where
  "dec_str x =
     (let a = \<bar>x\<bar>; i = \<lfloor>a\<rfloor>; r = a - of_int i
      in (if x < 0 then ''-'' else []) @ nat_str (nat i) @ ''.''
           @ (if r = 0 then ''0'' else frac_digits 17 r))"

definition dec_host :: "rat host" where
  "dec_host =
     \<lparr>float_of_str = dec_of_str,
      float_lit = (\<lambda>t. case dec_of_str t of Some v \<Rightarrow> v | None \<Rightarrow> 0),
      float_add = (+), float_sub = (-), float_div = (/),
      float_abs = abs, float_lt = (<), float_gt = (\<lambda>a b. b < a),
      float_round1 = (\<lambda>x. of_int (round_half_even (x * 10)) / 10),
      float_is_integer = (\<lambda>x. of_int \<lfloor>x\<rfloor> = x),
      float_str = dec_str, float_fmt1 = dec_fmt1,
      str_repr = (\<lambda>s. [CHR 0x27] @ s @ [CHR 0x27])\<rparr>"

text \<open>A row dictionary from its items.\<close>

definition dict_row :: "(string \<times> string) list \<Rightarrow> row" where
  "dict_row kvs = \<lparr>cols = map_of (map (\<lambda>(k, v). (k, Str v)) kvs), rest = None\<rparr>"

section \<open>Properties\<close>

subsection \<open>The loop in closed form\<close>

lemma process_row_valid_rows: "valid_rows (process_row h s idx r) = valid_rows s + 1"
  by (simp add: process_row_def Let_def split: prod.splits)

lemma process_row_rows_out:
  "rows_out (process_row h s idx r) = rows_out s @ [final_row h idx r]"
  by (simp add: process_row_def final_row_def Let_def split: prod.splits)

lemma process_row_issues:
  "issues (process_row h s idx r) = issues s @ row_issues h (seen_dates s) idx r"
  by (simp add: process_row_def row_issues_def Let_def split: prod.splits)

lemma process_row_seen_dates:
  "seen_dates (process_row h s idx r) = snd (check_date (seen_dates s) idx (clean_row r))"
  by (simp add: process_row_def Let_def split: prod.splits)

lemma run_rows_valid_rows:
  "valid_rows (run_rows h s idx rows) = valid_rows s + int (length rows)"
  by (induction rows arbitrary: s idx) (simp_all add: process_row_valid_rows)

lemma run_rows_rows_out:
  "rows_out (run_rows h s idx rows)
     = rows_out s @ map (\<lambda>i. final_row h (idx + int i) (rows ! i)) [0..<length rows]"
proof (induction rows arbitrary: s idx)
  case Nil
  show ?case by simp
next
  case (Cons r rs)
  have "map (\<lambda>i. final_row h (idx + int i) ((r # rs) ! i)) [0..<length (r # rs)]
          = final_row h idx r # map (\<lambda>i. final_row h (idx + 1 + int i) (rs ! i)) [0..<length rs]"
    by (simp add: map_upt_Suc add.assoc del: upt_Suc)
  with Cons.IH [of "process_row h s idx r" "idx + 1"] show ?case
    by (simp add: process_row_rows_out)
qed

lemma run_rows_issues:
  "issues (run_rows h s idx rows)
     = issues s @ concat (map (\<lambda>i. row_issues h (seen_dates (run_rows h s idx (take i rows)))
                                     (idx + int i) (rows ! i)) [0..<length rows])"
proof (induction rows arbitrary: s idx)
  case Nil
  show ?case by simp
next
  case (Cons r rs)
  have "map (\<lambda>i. row_issues h (seen_dates (run_rows h s idx (take i (r # rs))))
                    (idx + int i) ((r # rs) ! i)) [0..<length (r # rs)]
          = row_issues h (seen_dates s) idx r
            # map (\<lambda>i. row_issues h (seen_dates (run_rows h (process_row h s idx r) (idx + 1) (take i rs)))
                          (idx + 1 + int i) (rs ! i)) [0..<length rs]"
    by (simp add: map_upt_Suc add.assoc del: upt_Suc)
  with Cons.IH [of "process_row h s idx r" "idx + 1"] show ?case
    by (simp add: process_row_issues)
qed

lemma read_pass_rows_out:
  "rows_out (read_pass h header rows)
     = map (\<lambda>i. final_row h (2 + int i) (rows ! i)) [0..<length rows]"
  by (simp add: read_pass_def run_rows_rows_out)

lemma read_pass_valid_rows: "valid_rows (read_pass h header rows) = int (length rows)"
  by (simp add: read_pass_def run_rows_valid_rows)

subsection \<open>A file without a header row\<close>

text \<open>
  C8. For an empty file (the reader has no field names) \<open>validate_csv\<close> returns exactly
  one issue, with row number 0, the empty column and the message
  \<^verbatim>\<open>CSV has no header row\<close>, and the row count 0. Nothing else happens: no row is
  looked at and the file is not rewritten, even with write-back requested.
\<close>

theorem no_header_single_issue:
  "validate_csv h None rows write_back
     = ([\<lparr>row_number = 0, column = [], message = ''CSV has no header row''\<rparr>], 0, None)"
  by (simp add: validate_csv_def)

subsection \<open>Every row is processed\<close>

text \<open>
  C9. For a file with a header, every data row contributes exactly one cleaned row and
  one to the row count, whatever issues it produced: the cleaned rows are, in order, the
  cleaned forms of the data rows, the count is the number of data rows, and the rewritten
  file has one record per data row after its header.
\<close>

theorem every_row_contributes:
  "rows_out (read_pass h header rows)
     = map (\<lambda>i. final_row h (2 + int i) (rows ! i)) [0..<length rows]
   \<and> length (rows_out (read_pass h header rows)) = length rows
   \<and> validate_csv h (Some header) rows write_back
       = (issues (read_pass h header rows), int (length rows),
          if write_back
          then Some (REQUIRED_COLUMNS # map out_row (rows_out (read_pass h header rows)))
          else None)"
  by (simp add: validate_csv_def read_pass_rows_out read_pass_valid_rows Let_def)

end
